theory Spec2Isabelle
  imports Main "HOL-Library.Sublist"
begin

section \<open>The rundeck action of cloud-alerting\<close>

text \<open>
  A shallow embedding of \<^verbatim>\<open>src/rundeck_action/action_types/rundeck.ts\<close>: the
  function \<^verbatim>\<open>executor\<close>, its three HTTP helpers and its four result builders.

  The executor is dynamically typed where it matters: the settled values of the three
  remote calls are declared \<^verbatim>\<open>any\<close>, and the code reads properties off them and
  puts them into template literals without checking. The embedding therefore carries a
  datatype of JavaScript values, the property read that raises \<^verbatim>\<open>TypeError\<close> on
  \<^verbatim>\<open>undefined\<close> and \<^verbatim>\<open>null\<close>, and the string conversion of template literals, which
  raises \<^verbatim>\<open>TypeError\<close> on an object that cannot be converted.
\<close>

subsection \<open>JavaScript values\<close>

text \<open>
  Values as they come out of a parsed response body or of a thrown error object.

  A number is carried as the text JavaScript prints for it (\<^verbatim>\<open>200\<close>, \<^verbatim>\<open>24.5\<close>,
  \<^verbatim>\<open>1e+21\<close>, \<^verbatim>\<open>NaN\<close>): the executor does nothing with a number but print it and
  test it for zero, so the embedding needs no floating point arithmetic.
  An object is the list of its own properties, with distinct keys, read with \<open>map_of\<close>;
  none of its values is a function, as in all data read from JSON.
\<close>

type_synonym number = string

datatype jsval =
    JUndefined
  | JNull
  | JBool bool
  | JNumber number
  | JStr string
  | JArr "jsval list"
  | JObj "(string \<times> jsval) list"

text \<open>The only exception the executor's own code can raise.\<close>

datatype exn = TypeError

text \<open>
  Decimal rendering of an integer. JavaScript prints an integer so when its absolute
  value is below \<open>2^53\<close>; \<open>JNum n\<close> is the number \<open>n\<close> for such an integer.
\<close>

definition digit_char :: "nat \<Rightarrow> char" where
  "digit_char d =
     (if d = 0 then CHR ''0'' else if d = 1 then CHR ''1'' else if d = 2 then CHR ''2''
      else if d = 3 then CHR ''3'' else if d = 4 then CHR ''4'' else if d = 5 then CHR ''5''
      else if d = 6 then CHR ''6'' else if d = 7 then CHR ''7'' else if d = 8 then CHR ''8''
      else CHR ''9'')"

fun show_nat :: "nat \<Rightarrow> string" where
  "show_nat n = (if n < 10 then [digit_char n] else show_nat (n div 10) @ [digit_char (n mod 10)])"

declare show_nat.simps [simp del]

definition show_int :: "int \<Rightarrow> string" where
  "show_int i = (if i < 0 then CHR ''-'' # show_nat (nat (- i)) else show_nat (nat i))"

definition JNum :: "int \<Rightarrow> jsval" where
  "JNum n = JNumber (show_int n)"

text \<open>
  \<^verbatim>\<open>v.k\<close>: reading a property of \<^verbatim>\<open>undefined\<close> or \<^verbatim>\<open>null\<close> raises; a missing
  property reads as \<^verbatim>\<open>undefined\<close>. Of the inherited properties of strings and arrays
  only \<^verbatim>\<open>length\<close> is among the names the executor reads as data; the names it reads
  (\<^verbatim>\<open>response\<close>, \<^verbatim>\<open>data\<close>, \<^verbatim>\<open>message\<close>, \<^verbatim>\<open>error\<close>, \<^verbatim>\<open>status\<close>, \<^verbatim>\<open>statusText\<close>,
  \<^verbatim>\<open>permalink\<close>, \<^verbatim>\<open>incidents\<close>, \<^verbatim>\<open>length\<close>, \<^verbatim>\<open>id\<close>) are not inherited by objects.
\<close>

fun get_prop :: "jsval \<Rightarrow> string \<Rightarrow> exn + jsval" where
  "get_prop JUndefined k = Inl TypeError"
| "get_prop JNull k = Inl TypeError"
| "get_prop (JObj fs) k = Inr (case map_of fs k of None \<Rightarrow> JUndefined | Some v \<Rightarrow> v)"
| "get_prop (JArr xs) k = Inr (if k = ''length'' then JNumber (show_nat (length xs)) else JUndefined)"
| "get_prop (JStr s) k = Inr (if k = ''length'' then JNumber (show_nat (length s)) else JUndefined)"
| "get_prop (JBool b) k = Inr JUndefined"
| "get_prop (JNumber n) k = Inr JUndefined"

text \<open>\<^verbatim>\<open>v.k1.k2...\<close>: a chain of property reads, stopping at the first that raises.\<close>

fun path_get :: "jsval \<Rightarrow> string list \<Rightarrow> exn + jsval" where
  "path_get v [] = Inr v"
| "path_get v (k # ks) = (case get_prop v k of Inl e \<Rightarrow> Inl e | Inr w \<Rightarrow> path_get w ks)"

text \<open>
  The test of \<^verbatim>\<open>if (v)\<close>, \<^verbatim>\<open>!v\<close> and \<^verbatim>\<open>v ? a : b\<close>. The numbers that count as
  false are zero (printed \<^verbatim>\<open>0\<close>, also when negative) and \<^verbatim>\<open>NaN\<close>.
\<close>

fun truthy :: "jsval \<Rightarrow> bool" where
  "truthy JUndefined = False"
| "truthy JNull = False"
| "truthy (JBool b) = b"
| "truthy (JNumber n) = (n \<noteq> ''0'' \<and> n \<noteq> ''NaN'')"
| "truthy (JStr s) = (s \<noteq> [])"
| "truthy (JArr xs) = True"
| "truthy (JObj fs) = True"

text \<open>
  \<^verbatim>\<open>v.pop()\<close>: only an array has the method; calling it on anything else raises
  (the property is \<^verbatim>\<open>undefined\<close> or not a function, or the read itself raises).
  The call also removes the element from the array; the responses of two requests are
  two objects, so the job trigger's response, which the executor returns, is not changed.
\<close>

fun pop :: "jsval \<Rightarrow> exn + jsval" where
  "pop (JArr xs) = Inr (if xs = [] then JUndefined else last xs)"
| "pop v = Inl TypeError"

text \<open>
  The conversion a template literal \<^verbatim>\<open>`${v}`\<close> applies to \<^verbatim>\<open>v\<close>.

  An object is converted by its \<^verbatim>\<open>toString\<close> method. An object without an own
  property of that name inherits the method that answers \<^verbatim>\<open>[object Object]\<close>. An own
  property \<^verbatim>\<open>toString\<close> hides it and is not a function; the conversion then turns to
  \<^verbatim>\<open>valueOf\<close>, which is either an own property and not a function or the inherited
  method that answers the object itself, and raises \<^verbatim>\<open>TypeError\<close>.
  An array is its elements joined by commas, each converted in turn, with
  \<^verbatim>\<open>undefined\<close> and \<^verbatim>\<open>null\<close> elements rendered empty.
\<close>

fun to_string :: "jsval \<Rightarrow> exn + string"
  and join_elements :: "jsval list \<Rightarrow> exn + string" where
  "to_string JUndefined = Inr ''undefined''"
| "to_string JNull = Inr ''null''"
| "to_string (JBool b) = Inr (if b then ''true'' else ''false'')"
| "to_string (JNumber n) = Inr n"
| "to_string (JStr s) = Inr s"
| "to_string (JArr xs) = join_elements xs"
| "to_string (JObj fs) =
     (if ''toString'' \<in> fst ` set fs then Inl TypeError else Inr ''[object Object]'')"
| "join_elements [] = Inr []"
| "join_elements (x # xs) =
     (case (if x = JUndefined \<or> x = JNull then Inr [] else to_string x) of
        Inl e \<Rightarrow> Inl e
      | Inr s \<Rightarrow>
          if xs = [] then Inr s
          else (case join_elements xs of Inl e \<Rightarrow> Inl e | Inr t \<Rightarrow> Inr (s @ '','' @ t)))"

text \<open>
  The \<^verbatim>\<open>TypeError\<close> object of a failed conversion, as a \<^verbatim>\<open>catch\<close> block receives
  it: it has a \<^verbatim>\<open>message\<close> (the text is that of Node.js) and neither a
  \<^verbatim>\<open>response\<close> nor an \<^verbatim>\<open>error\<close> property.
\<close>

definition conversionError :: jsval where
  "conversionError = JObj [(''message'', JStr ''Cannot convert object to primitive value'')]"

text \<open>
  A value of a \<^verbatim>\<open>nullableType(schema.string())\<close> field, and its text in a template
  literal.
\<close>

definition nullable :: "string option \<Rightarrow> jsval" where
  "nullable s = (case s of None \<Rightarrow> JNull | Some x \<Rightarrow> JStr x)"

definition nullable_text :: "string option \<Rightarrow> string" where
  "nullable_text s = (case s of None \<Rightarrow> ''null'' | Some x \<Rightarrow> x)"

subsection \<open>Configuration, secrets, parameters, result\<close>

type_synonym http_headers = "(string \<times> string) list"

record ActionTypeConfigType =
  rundeckBaseUrl :: string
  rundeckApiVersion :: number
  rundeckJobId :: string
  headers :: "http_headers option"

record ActionTypeSecretsType =
  rundeckApiToken :: string
  pdApiKey :: "string option"
  slackWebhookUrl :: "string option"

record ActionParamsType =
  dedupKey :: "string option"
  alertName :: "string option"
  jobParams :: jsval

record ActionTypeExecutorOptions =
  actionId :: string
  config :: ActionTypeConfigType
  secrets :: ActionTypeSecretsType
  params :: ActionParamsType

text \<open>
  The result object: \<^verbatim>\<open>{ status: 'ok', data }\<close> or \<^verbatim>\<open>{ status: 'error', message }\<close>.
  A field the object literal does not have is \<open>None\<close>.
\<close>

record ActionTypeExecutorResult =
  status :: string
  data :: "jsval option"
  message :: "string option"

subsection \<open>The remote collaborators\<close>

text \<open>
  An awaited promise settles: it resolves with a value or rejects with a thrown value.
  The three collaborators are \<^verbatim>\<open>axios.post\<close>, \<^verbatim>\<open>axios.get\<close> and
  \<^verbatim>\<open>IncomingWebhook(url).send\<close>; each is a function of the request it is given.
  The executor returns, beside its outcome, the list of the calls it made, in order.
\<close>

datatype settled = Resolve jsval | Reject jsval

datatype remote_call =
    AxiosPost string jsval http_headers
  | AxiosGet string http_headers
  | WebhookSend string jsval

record remote =
  axios_post :: "string \<Rightarrow> jsval \<Rightarrow> http_headers \<Rightarrow> settled"
  axios_get :: "string \<Rightarrow> http_headers \<Rightarrow> settled"
  webhook_send :: "string \<Rightarrow> jsval \<Rightarrow> settled"

text \<open>
  \<^verbatim>\<open>Object.assign({}, headers, extra)\<close>: a \<^verbatim>\<open>null\<close> source is skipped, a later
  source overwrites the value of a key in place, and a key \<^verbatim>\<open>__proto__\<close> with a
  string value sets nothing. The list is in the order of insertion; the order carries
  no meaning.
\<close>

fun assign :: "http_headers \<Rightarrow> http_headers \<Rightarrow> http_headers" where
  "assign tgt [] = tgt"
| "assign tgt ((k, v) # kvs) =
     assign (if k = ''__proto__'' then tgt
             else if k \<in> fst ` set tgt
               then map (\<lambda>(k', v'). if k' = k then (k', v) else (k', v')) tgt
             else tgt @ [(k, v)]) kvs"

definition object_assign :: "http_headers option \<Rightarrow> http_headers \<Rightarrow> http_headers" where
  "object_assign hs extra = assign (assign [] (case hs of None \<Rightarrow> [] | Some h \<Rightarrow> h)) extra"

subsection \<open>The HTTP helpers\<close>

text \<open>
  Each helper answers with the request it issued and with what its promise settled to.
  \<^verbatim>\<open>executeRundeckJob\<close> and \<^verbatim>\<open>getPagerDutyIncidentList\<close> put only strings, a
  number and \<^verbatim>\<open>null\<close> into their template literals and always reach their request.
  \<^verbatim>\<open>addNoteToPagerDutyIncident\<close> converts the incident id (line 242) and the
  execution link (line 246), which are values of the remote systems: when a conversion
  raises, no request is issued and the promise of the \<^verbatim>\<open>async\<close> function rejects with
  the \<^verbatim>\<open>TypeError\<close>.
\<close>

definition executeRundeckJob ::
  "remote \<Rightarrow> http_headers option \<Rightarrow> string \<Rightarrow> string \<Rightarrow> number \<Rightarrow> string \<Rightarrow> jsval
     \<Rightarrow> remote_call \<times> settled" where
  "executeRundeckJob rem hs baseUrl token version jobId jparams =
     (let hs' = object_assign hs [(''X-Rundeck-Auth-Token'', token)];
          rundeckBaseUrlWithoutSlash = (if suffix ''/'' baseUrl then butlast baseUrl else baseUrl);
          rundeckApiUrl = rundeckBaseUrlWithoutSlash @ ''/api/'' @ version
                            @ ''/job/'' @ jobId @ ''/executions''
      in (AxiosPost rundeckApiUrl jparams hs', axios_post rem rundeckApiUrl jparams hs'))"

definition getPagerDutyIncidentList ::
  "remote \<Rightarrow> http_headers option \<Rightarrow> string option \<Rightarrow> string option
     \<Rightarrow> remote_call \<times> settled" where
  "getPagerDutyIncidentList rem hs apiKey dkey =
     (let hs' = object_assign hs [(''authorization'', ''Token token='' @ nullable_text apiKey)];
          pdIncidentListApiUrl =
            ''https://api.pagerduty.com/incidents?date_range=all&incident_key=''
              @ nullable_text dkey
      in (AxiosGet pdIncidentListApiUrl hs', axios_get rem pdIncidentListApiUrl hs'))"

definition noteMessage :: "string \<Rightarrow> jsval" where
  "noteMessage linkText =
     JObj [(''note'', JObj [(''content'',
       JStr (''Rundeck job for the alert is triggered. Link: '' @ linkText))])]"

definition addNoteToPagerDutyIncident ::
  "remote \<Rightarrow> http_headers option \<Rightarrow> string option \<Rightarrow> jsval \<Rightarrow> jsval
     \<Rightarrow> remote_call list \<times> settled" where
  "addNoteToPagerDutyIncident rem hs apiKey incidentId executionLink =
     (let hs' = object_assign hs [(''authorization'', ''Token token='' @ nullable_text apiKey)]
      in case to_string incidentId of
           Inl e \<Rightarrow> ([], Reject conversionError)
         | Inr idText \<Rightarrow>
             (let pdAddNoteApiUrl = ''https://api.pagerduty.com/incidents/'' @ idText @ ''/notes''
              in case to_string executionLink of
                   Inl e \<Rightarrow> ([], Reject conversionError)
                 | Inr linkText \<Rightarrow>
                     ([AxiosPost pdAddNoteApiUrl (noteMessage linkText) hs'],
                      axios_post rem pdAddNoteApiUrl (noteMessage linkText) hs')))"

subsection \<open>The result builders\<close>

text \<open>
  The three error builders put their \<^verbatim>\<open>message\<close> argument, which the executor
  passes unconverted, into a template literal.
  \<open>dq\<close> is the double quote character, which the messages put around the action id.
\<close>

definition dq :: string where
  "dq = [CHR 0x22]"

definition successResult :: "jsval \<Rightarrow> ActionTypeExecutorResult" where
  "successResult d = \<lparr>status = ''ok'', data = Some d, message = None\<rparr>"

definition errorPagerDutyProcess :: "string \<Rightarrow> jsval \<Rightarrow> exn + ActionTypeExecutorResult" where
  "errorPagerDutyProcess ident msg =
     (case to_string msg of
        Inl e \<Rightarrow> Inl e
      | Inr text \<Rightarrow> Inr
          \<lparr>status = ''error'', data = None,
           message = Some (''An error occurred while calling Pager Duty API in rundeck action ''
                             @ dq @ ident @ dq @ '': '' @ text)\<rparr>)"

definition errorSlackProcess :: "string \<Rightarrow> jsval \<Rightarrow> exn + ActionTypeExecutorResult" where
  "errorSlackProcess ident msg =
     (case to_string msg of
        Inl e \<Rightarrow> Inl e
      | Inr text \<Rightarrow> Inr
          \<lparr>status = ''error'', data = None,
           message = Some (''Invalid Response: an error occurred in rundeck action '' @ dq
                             @ ident @ dq @ '': '' @ text)\<rparr>)"

definition errorResult :: "string \<Rightarrow> jsval \<Rightarrow> exn + ActionTypeExecutorResult" where
  "errorResult ident msg =
     (case to_string msg of
        Inl e \<Rightarrow> Inl e
      | Inr text \<Rightarrow> Inr
          \<lparr>status = ''error'', data = None,
           message = Some (''Invalid Response: an error occurred in rundeck action '' @ dq
                             @ ident @ dq @ '' calling a rundeck job: '' @ text)\<rparr>)"

subsection \<open>The executor\<close>

text \<open>
  The logger is a service of the host and is taken not to fail, but the text of a log
  entry is a template literal, evaluated before the logger is called: where it converts
  a value of a remote system the conversion is part of the executor, and is kept.
  The entries of lines 135, 140, 160, 172 and 190 convert strings only.
\<close>

text \<open>
  The message of the first \<^verbatim>\<open>catch\<close> (line 105):
  \<^verbatim>\<open>err.response ? err.response.data.message : err.message\<close>.
\<close>

definition rundeckFailureMessage :: "jsval \<Rightarrow> exn + jsval" where
  "rundeckFailureMessage err =
     (case get_prop err ''response'' of
        Inl e \<Rightarrow> Inl e
      | Inr r \<Rightarrow> if truthy r then path_get r [''data'', ''message'']
                else get_prop err ''message'')"

text \<open>
  The message of the two Pager Duty \<^verbatim>\<open>catch\<close> blocks (lines 164 and 194):
  \<^verbatim>\<open>err.response ? `${err.response.status} ${err.response.data.error.message}` : err.message\<close>.
\<close>

definition pagerDutyFailureMessage :: "jsval \<Rightarrow> exn + jsval" where
  "pagerDutyFailureMessage err =
     (case get_prop err ''response'' of
        Inl e \<Rightarrow> Inl e
      | Inr r \<Rightarrow>
          if truthy r then
            (case get_prop r ''status'' of
               Inl e \<Rightarrow> Inl e
             | Inr st \<Rightarrow>
                 (case to_string st of
                    Inl e \<Rightarrow> Inl e
                  | Inr statusText \<Rightarrow>
                      (case path_get r [''data'', ''error'', ''message''] of
                         Inl e \<Rightarrow> Inl e
                       | Inr m \<Rightarrow>
                           (case to_string m of
                              Inl e \<Rightarrow> Inl e
                            | Inr messageText \<Rightarrow> Inr (JStr (statusText @ '' '' @ messageText))))))
          else get_prop err ''message'')"

text \<open>The payload of the Slack message (lines 124 to 131); its attachment converts the link.\<close>

definition slackMessage :: "string option \<Rightarrow> jsval \<Rightarrow> exn + jsval" where
  "slackMessage name executionLink =
     (case to_string executionLink of
        Inl e \<Rightarrow> Inl e
      | Inr linkText \<Rightarrow> Inr
          (JObj [(''text'', nullable name),
                 (''attachments'', JArr [JObj [(''text'',
                    JStr (''Rundeck job for the alert is triggered. Link: '' @ linkText))]])]))"

text \<open>
  The body of the \<^verbatim>\<open>try\<close> block of the Slack message (lines 122 to 135): the
  requests it issued and what the block ended with. When the payload cannot be built the
  webhook is not called and the \<^verbatim>\<open>catch\<close> block receives the \<^verbatim>\<open>TypeError\<close>.
\<close>

definition sendSlackMessage ::
  "remote \<Rightarrow> string \<Rightarrow> string option \<Rightarrow> jsval \<Rightarrow> remote_call list \<times> settled" where
  "sendSlackMessage rem url name executionLink =
     (case slackMessage name executionLink of
        Inl e \<Rightarrow> ([], Reject conversionError)
      | Inr msg \<Rightarrow> ([WebhookSend url msg], webhook_send rem url msg))"

text \<open>
  The text that line 199 logs of the job trigger's response:
  \<^verbatim>\<open>[HTTP ${rundeckResult.status}] ${rundeckResult.statusText}\<close>.
\<close>

definition responseLogText :: "jsval \<Rightarrow> exn + string" where
  "responseLogText rundeckResult =
     (case get_prop rundeckResult ''status'' of
        Inl e \<Rightarrow> Inl e
      | Inr st \<Rightarrow>
          (case to_string st of
             Inl e \<Rightarrow> Inl e
           | Inr s1 \<Rightarrow>
               (case get_prop rundeckResult ''statusText'' of
                  Inl e \<Rightarrow> Inl e
                | Inr tx \<Rightarrow>
                    (case to_string tx of
                       Inl e \<Rightarrow> Inl e
                     | Inr s2 \<Rightarrow> Inr (''[HTTP '' @ s1 @ ''] '' @ s2)))))"

text \<open>
  \<^verbatim>\<open>executor\<close> (lines 60 to 203). The outcome is \<open>Inl\<close> when the function throws
  to its caller (its promise rejects) and \<open>Inr\<close> when it returns. The bindings named
  \<open>logged\<close> are the texts of the log entries of lines 106, 165, 195 and 199.
\<close>

definition executor ::
  "remote \<Rightarrow> ActionTypeExecutorOptions \<Rightarrow> remote_call list \<times> (exn + ActionTypeExecutorResult)" where
  "executor rem execOptions =
     (let ident = actionId execOptions;
          cfg = config execOptions;
          sec = secrets execOptions;
          par = params execOptions;
          (c1, s1) = executeRundeckJob rem (headers cfg) (rundeckBaseUrl cfg) (rundeckApiToken sec)
                       (rundeckApiVersion cfg) (rundeckJobId cfg) (jobParams par)
      in case s1 of
           Reject err \<Rightarrow>
             ([c1], case rundeckFailureMessage err of
                      Inl e \<Rightarrow> Inl e
                    | Inr m \<Rightarrow>
                        (case to_string m of
                           Inl e \<Rightarrow> Inl e
                         | Inr logged \<Rightarrow> errorResult ident m))
         | Resolve rundeckResult \<Rightarrow>
             (case path_get rundeckResult [''data'', ''permalink''] of
                Inl e \<Rightarrow> ([c1], Inl e)
              | Inr executionLink \<Rightarrow>
                  if \<not> truthy (nullable (dedupKey par)) then
                    (if \<not> truthy (nullable (slackWebhookUrl sec)) then
                       ([c1], errorSlackProcess ident (JStr
                          (''Neither of dedupKey nor slackWebhookUrl are provided, ''
                           @ ''failed to send message to PagerDuty incident or slack channel.'')))
                     else
                       (let (cs2, s2) = sendSlackMessage rem (nullable_text (slackWebhookUrl sec))
                                          (alertName par) executionLink
                        in case s2 of
                             Reject err \<Rightarrow>
                               (c1 # cs2,
                                case get_prop err ''error'' of
                                  Inl e \<Rightarrow> Inl e
                                | Inr er \<Rightarrow>
                                    (case to_string er of
                                       Inl e \<Rightarrow> Inl e
                                     | Inr errorText \<Rightarrow> errorSlackProcess ident (JStr
                                         (''an error occurred while calling slack webhook: ''
                                          @ errorText))))
                           | Resolve r \<Rightarrow>
                               (c1 # cs2,
                                case get_prop rundeckResult ''data'' of
                                  Inl e \<Rightarrow> Inl e
                                | Inr d \<Rightarrow> Inr (successResult d))))
                  else
                    (let (c2, s2) = getPagerDutyIncidentList rem (headers cfg) (pdApiKey sec)
                                      (dedupKey par)
                     in case s2 of
                          Reject err \<Rightarrow>
                            ([c1, c2],
                             case pagerDutyFailureMessage err of
                               Inl e \<Rightarrow> Inl e
                             | Inr m \<Rightarrow>
                                 (case to_string m of
                                    Inl e \<Rightarrow> Inl e
                                  | Inr logged \<Rightarrow> errorPagerDutyProcess ident m))
                        | Resolve pdIncidentListResult \<Rightarrow>
                            (case path_get pdIncidentListResult [''data'', ''incidents''] of
                               Inl e \<Rightarrow> ([c1, c2], Inl e)
                             | Inr incidents \<Rightarrow>
                                 (case get_prop incidents ''length'' of
                                    Inl e \<Rightarrow> ([c1, c2], Inl e)
                                  | Inr len \<Rightarrow>
                                      if \<not> truthy len then
                                        ([c1, c2], errorPagerDutyProcess ident (JStr
                                           (''Pager Duty incident list requested by dedupKey(incident_key), ''
                                            @ dq @ nullable_text (dedupKey par) @ dq
                                            @ '', is empty.'')))
                                      else
                                        (case pop incidents of
                                           Inl e \<Rightarrow> ([c1, c2], Inl e)
                                         | Inr incident \<Rightarrow>
                                             (case get_prop incident ''id'' of
                                                Inl e \<Rightarrow> ([c1, c2], Inl e)
                                              | Inr incidentId \<Rightarrow>
                                                  (let (cs3, s3) = addNoteToPagerDutyIncident rem
                                                         (headers cfg) (pdApiKey sec) incidentId
                                                         executionLink
                                                   in case s3 of
                                                        Reject err \<Rightarrow>
                                                          (c1 # c2 # cs3,
                                                           case pagerDutyFailureMessage err of
                                                             Inl e \<Rightarrow> Inl e
                                                           | Inr m \<Rightarrow>
                                                               (case to_string m of
                                                                  Inl e \<Rightarrow> Inl e
                                                                | Inr logged \<Rightarrow>
                                                                    (case get_prop err ''message'' of
                                                                       Inl e \<Rightarrow> Inl e
                                                                     | Inr em \<Rightarrow>
                                                                         errorPagerDutyProcess ident em)))
                                                      | Resolve r \<Rightarrow>
                                                          (c1 # c2 # cs3,
                                                           case responseLogText rundeckResult of
                                                             Inl e \<Rightarrow> Inl e
                                                           | Inr logged \<Rightarrow>
                                                               (case get_prop rundeckResult ''data'' of
                                                                  Inl e \<Rightarrow> Inl e
                                                                | Inr d \<Rightarrow> Inr (successResult d)))))))))))"

subsection \<open>Vocabulary of the properties\<close>

text \<open>
  The test \<^verbatim>\<open>if (!x)\<close> the executor applies to \<^verbatim>\<open>dedupKey\<close> and
  \<^verbatim>\<open>slackWebhookUrl\<close>: \<^verbatim>\<open>null\<close> and the empty string both count as not provided.
\<close>

definition present :: "string option \<Rightarrow> bool" where
  "present s = truthy (nullable s)"

text \<open>
  The remote calls as the executor issues them from its options. The job trigger and
  the incident query are always one request; the note post and the chat post are the
  requests issued, none when a conversion raised, with what the attempt ended with.
\<close>

definition jobTrigger :: "remote \<Rightarrow> ActionTypeExecutorOptions \<Rightarrow> remote_call \<times> settled" where
  "jobTrigger rem opts =
     executeRundeckJob rem (headers (config opts)) (rundeckBaseUrl (config opts))
       (rundeckApiToken (secrets opts)) (rundeckApiVersion (config opts))
       (rundeckJobId (config opts)) (jobParams (params opts))"

definition incidentQuery :: "remote \<Rightarrow> ActionTypeExecutorOptions \<Rightarrow> remote_call \<times> settled" where
  "incidentQuery rem opts =
     getPagerDutyIncidentList rem (headers (config opts)) (pdApiKey (secrets opts))
       (dedupKey (params opts))"

definition notePost ::
  "remote \<Rightarrow> ActionTypeExecutorOptions \<Rightarrow> jsval \<Rightarrow> jsval \<Rightarrow> remote_call list \<times> settled" where
  "notePost rem opts incidentId executionLink =
     addNoteToPagerDutyIncident rem (headers (config opts)) (pdApiKey (secrets opts))
       incidentId executionLink"

definition chatPost ::
  "remote \<Rightarrow> ActionTypeExecutorOptions \<Rightarrow> jsval \<Rightarrow> remote_call list \<times> settled" where
  "chatPost rem opts executionLink =
     sendSlackMessage rem (nullable_text (slackWebhookUrl (secrets opts)))
       (alertName (params opts)) executionLink"

subsection \<open>Concrete inputs\<close>

text \<open>
  Options of one firing of the action, by dedup key, webhook URL and Pager Duty key, and
  scripted collaborators: \<open>scripted job query note chat\<close> answers the job trigger with
  \<open>job\<close>, the incident query with \<open>query\<close>, the note post with \<open>note\<close> and the webhook
  with \<open>chat\<close>.
\<close>

definition exampleOptions ::
  "string option \<Rightarrow> string option \<Rightarrow> string option \<Rightarrow> ActionTypeExecutorOptions" where
  "exampleOptions dkey hook apiKey =
     \<lparr>actionId = ''action-7'',
      config = \<lparr>rundeckBaseUrl = ''https://rundeck.example.com/'', rundeckApiVersion = ''24'',
                rundeckJobId = ''restart'', headers = Some [(''X-Trace'', ''1'')]\<rparr>,
      secrets = \<lparr>rundeckApiToken = ''tok'', pdApiKey = apiKey, slackWebhookUrl = hook\<rparr>,
      params = \<lparr>dedupKey = dkey, alertName = Some ''disk full'', jobParams = JUndefined\<rparr>\<rparr>"

definition scripted :: "settled \<Rightarrow> settled \<Rightarrow> settled \<Rightarrow> settled \<Rightarrow> remote" where
  "scripted job query note chat =
     \<lparr>axios_post = (\<lambda>url body hs. if suffix ''/executions'' url then job else note),
      axios_get = (\<lambda>url hs. query),
      webhook_send = (\<lambda>url msg. chat)\<rparr>"

definition jobLink :: jsval where
  "jobLink = JStr ''https://rundeck.example.com/execution/show/42''"

definition jobBody :: jsval where
  "jobBody = JObj [(''id'', JNum 42), (''permalink'', jobLink)]"

definition jobResponse :: jsval where
  "jobResponse = JObj [(''status'', JNum 200), (''statusText'', JStr ''OK''), (''data'', jobBody)]"

definition jobOk :: settled where
  "jobOk = Resolve jobResponse"

definition incidentsBody :: "jsval list \<Rightarrow> jsval" where
  "incidentsBody xs = JObj [(''incidents'', JArr xs)]"

definition incidentsResponse :: "jsval list \<Rightarrow> jsval" where
  "incidentsResponse xs = JObj [(''status'', JNum 200), (''data'', incidentsBody xs)]"

definition incidentsOk :: "jsval list \<Rightarrow> settled" where
  "incidentsOk xs = Resolve (incidentsResponse xs)"

definition created :: settled where
  "created = Resolve (JObj [(''status'', JNum 201), (''data'', JObj [])])"

definition sent :: settled where
  "sent = Resolve (JObj [(''text'', JStr ''ok'')])"

text \<open>An error as axios throws it on a response outside 2xx, and one without a response.\<close>

definition axiosError :: "int \<Rightarrow> jsval \<Rightarrow> jsval" where
  "axiosError code body =
     JObj [(''message'', JStr (''Request failed with status code '' @ show_int code)),
           (''response'', JObj [(''status'', JNum code), (''data'', body)])]"

definition networkError :: jsval where
  "networkError = JObj [(''message'', JStr ''Network Error'')]"

text \<open>The options of the four situations the properties distinguish.\<close>

definition chatOptions :: ActionTypeExecutorOptions where
  "chatOptions = exampleOptions None (Some ''https://hooks.slack.com/services/T0/B0/x'') None"

definition bareOptions :: ActionTypeExecutorOptions where
  "bareOptions = exampleOptions None None None"

definition incidentOptions :: ActionTypeExecutorOptions where
  "incidentOptions = exampleOptions (Some ''key-1'') None (Some ''pd-key'')"


text \<open>The requests these options lead to.\<close>

definition exampleJobCall :: remote_call where
  "exampleJobCall =
     AxiosPost ''https://rundeck.example.com/api/24/job/restart/executions'' JUndefined
       [(''X-Trace'', ''1''), (''X-Rundeck-Auth-Token'', ''tok'')]"

definition exampleQueryCall :: "string \<Rightarrow> remote_call" where
  "exampleQueryCall token =
     AxiosGet ''https://api.pagerduty.com/incidents?date_range=all&incident_key=key-1''
       [(''X-Trace'', ''1''), (''authorization'', ''Token token='' @ token)]"

definition exampleNoteCall :: "string \<Rightarrow> string \<Rightarrow> remote_call" where
  "exampleNoteCall ident token =
     AxiosPost (''https://api.pagerduty.com/incidents/'' @ ident @ ''/notes'')
       (JObj [(''note'', JObj [(''content'', JStr
          ''Rundeck job for the alert is triggered. Link: https://rundeck.example.com/execution/show/42'')])])
       [(''X-Trace'', ''1''), (''authorization'', ''Token token='' @ token)]"

definition exampleChatCall :: remote_call where
  "exampleChatCall =
     WebhookSend ''https://hooks.slack.com/services/T0/B0/x''
       (JObj [(''text'', JStr ''disk full''),
              (''attachments'', JArr [JObj [(''text'', JStr
                 ''Rundeck job for the alert is triggered. Link: https://rundeck.example.com/execution/show/42'')]])])"

text \<open>
  A result is attributed to an action when it has one of the two shapes and, in the
  error shape, its message contains the action's id.
\<close>

definition attributed :: "string \<Rightarrow> ActionTypeExecutorResult \<Rightarrow> bool" where
  "attributed ident r =
     (if status r = ''ok'' then data r \<noteq> None \<and> message r = None
      else status r = ''error'' \<and> data r = None
           \<and> (case message r of None \<Rightarrow> False | Some m \<Rightarrow> sublist ident m))"

section \<open>Properties\<close>

subsection \<open>Auxiliary facts\<close>

lemma digit_char_cases:
  "digit_char d \<noteq> CHR ''N'' \<and> (digit_char d = CHR ''0'' \<longleftrightarrow> d = 0)"
  by (simp add: digit_char_def)

lemma show_nat_last: "show_nat n \<noteq> [] \<and> last (show_nat n) = digit_char (n mod 10)"
  by (subst (1 2) show_nat.simps) simp

lemma show_nat_zero: "show_nat n = ''0'' \<longleftrightarrow> n = 0"
proof (cases "n < 10")
  case True
  then show ?thesis
    by (subst show_nat.simps) (simp add: digit_char_cases)
next
  case False
  from show_nat_last [of "n div 10"] have "show_nat (n div 10) \<noteq> []" by simp
  with False show ?thesis
    by (subst show_nat.simps) simp
qed

lemma show_nat_not_NaN: "show_nat n \<noteq> ''NaN''"
proof
  assume a: "show_nat n = ''NaN''"
  from show_nat_last [of n] a have "digit_char (n mod 10) = CHR ''N''" by simp
  moreover have "n mod 10 < 10" by simp
  ultimately show False using digit_char_cases by blast
qed

lemma truthy_length: "truthy (JNumber (show_nat n)) \<longleftrightarrow> n \<noteq> 0"
  by (simp add: show_nat_zero show_nat_not_NaN)

lemma present_iff: "present s \<longleftrightarrow> (\<exists>x. s = Some x \<and> x \<noteq> [])"
  by (cases s) (simp_all add: present_def nullable_def)

lemma settled_pair: "snd p = v \<Longrightarrow> \<exists>c. p = (c, v) \<and> fst p = c"
  by (cases p) simp

lemma path_get2:
  "get_prop v a = Inr u \<Longrightarrow> get_prop u b = Inr w \<Longrightarrow> path_get v [a, b] = Inr w"
  by simp

lemma to_string_JStr: "to_string (JStr s) = Inr s"
  by simp

lemma jobTrigger_call:
  "\<exists>url hs. fst (jobTrigger rem opts) = AxiosPost url (jobParams (params opts)) hs
      \<and> suffix ''/executions'' url"
  by (simp add: jobTrigger_def executeRundeckJob_def Let_def suffix_def)




lemma chatPost_made:
  assumes "to_string link = Inr linkText"
  shows "chatPost rem opts link =
     ([WebhookSend (nullable_text (slackWebhookUrl (secrets opts)))
         (JObj [(''text'', nullable (alertName (params opts))),
                (''attachments'', JArr [JObj [(''text'',
                   JStr (''Rundeck job for the alert is triggered. Link: '' @ linkText))]])])],
      webhook_send rem (nullable_text (slackWebhookUrl (secrets opts)))
         (JObj [(''text'', nullable (alertName (params opts))),
                (''attachments'', JArr [JObj [(''text'',
                   JStr (''Rundeck job for the alert is triggered. Link: '' @ linkText))]])]))"
  using assms by (simp add: chatPost_def sendSlackMessage_def slackMessage_def)

lemma chatPost_one_call:
  assumes "chatPost rem opts link = ([c], s)"
  shows "\<exists>linkText. to_string link = Inr linkText
     \<and> c = WebhookSend (nullable_text (slackWebhookUrl (secrets opts)))
         (JObj [(''text'', nullable (alertName (params opts))),
                (''attachments'', JArr [JObj [(''text'',
                   JStr (''Rundeck job for the alert is triggered. Link: '' @ linkText))]])])"
  using assms by (auto simp add: chatPost_def sendSlackMessage_def slackMessage_def split: sum.splits)

text \<open>The executor, one lemma per way through it.\<close>

lemma executor_job_rejected:
  assumes "jobTrigger rem opts = (c1, Reject err)"
  shows "executor rem opts =
           ([c1], case rundeckFailureMessage err of
                    Inl e \<Rightarrow> Inl e
                  | Inr m \<Rightarrow> (case to_string m of
                               Inl e \<Rightarrow> Inl e
                             | Inr logged \<Rightarrow> errorResult (actionId opts) m))"
  using assms by (simp add: executor_def jobTrigger_def Let_def)

lemma executor_no_body:
  assumes "jobTrigger rem opts = (c1, Resolve rr)"
      and "path_get rr [''data'', ''permalink''] = Inl e"
  shows "executor rem opts = ([c1], Inl e)"
  using assms by (simp add: executor_def jobTrigger_def Let_def)

lemma executor_unconfigured:
  assumes "jobTrigger rem opts = (c1, Resolve rr)"
      and "path_get rr [''data'', ''permalink''] = Inr link"
      and "\<not> present (dedupKey (params opts))"
      and "\<not> present (slackWebhookUrl (secrets opts))"
  shows "executor rem opts =
           ([c1], errorSlackProcess (actionId opts) (JStr
              (''Neither of dedupKey nor slackWebhookUrl are provided, ''
               @ ''failed to send message to PagerDuty incident or slack channel.'')))"
  using assms by (simp add: executor_def jobTrigger_def present_def Let_def)

lemma executor_chat:
  assumes "jobTrigger rem opts = (c1, Resolve rr)"
      and "path_get rr [''data'', ''permalink''] = Inr link"
      and "\<not> present (dedupKey (params opts))"
      and "present (slackWebhookUrl (secrets opts))"
      and "chatPost rem opts link = (cs2, s2)"
  shows "executor rem opts =
           (c1 # cs2,
            case s2 of
              Reject err \<Rightarrow>
                (case get_prop err ''error'' of
                   Inl e \<Rightarrow> Inl e
                 | Inr er \<Rightarrow>
                     (case to_string er of
                        Inl e \<Rightarrow> Inl e
                      | Inr errorText \<Rightarrow> errorSlackProcess (actionId opts) (JStr
                          (''an error occurred while calling slack webhook: '' @ errorText))))
            | Resolve r \<Rightarrow>
                (case get_prop rr ''data'' of Inl e \<Rightarrow> Inl e | Inr d \<Rightarrow> Inr (successResult d)))"
  using assms
  by (auto simp add: executor_def jobTrigger_def chatPost_def present_def Let_def
      split: settled.splits)


lemma executor_query_resolved:
  assumes "jobTrigger rem opts = (c1, Resolve rr)"
      and "path_get rr [''data'', ''permalink''] = Inr link"
      and "present (dedupKey (params opts))"
      and "incidentQuery rem opts = (c2, Resolve lr)"
  shows "executor rem opts =
     (case path_get lr [''data'', ''incidents''] of
        Inl e \<Rightarrow> ([c1, c2], Inl e)
      | Inr incidents \<Rightarrow>
          (case get_prop incidents ''length'' of
             Inl e \<Rightarrow> ([c1, c2], Inl e)
           | Inr len \<Rightarrow>
               if \<not> truthy len then
                 ([c1, c2], errorPagerDutyProcess (actionId opts) (JStr
                    (''Pager Duty incident list requested by dedupKey(incident_key), ''
                     @ dq @ nullable_text (dedupKey (params opts)) @ dq
                     @ '', is empty.'')))
               else
                 (case pop incidents of
                    Inl e \<Rightarrow> ([c1, c2], Inl e)
                  | Inr incident \<Rightarrow>
                      (case get_prop incident ''id'' of
                         Inl e \<Rightarrow> ([c1, c2], Inl e)
                       | Inr incidentId \<Rightarrow>
                           (c1 # c2 # fst (notePost rem opts incidentId link),
                            case snd (notePost rem opts incidentId link) of
                              Reject err \<Rightarrow>
                                (case pagerDutyFailureMessage err of
                                   Inl e \<Rightarrow> Inl e
                                 | Inr m \<Rightarrow>
                                     (case to_string m of
                                        Inl e \<Rightarrow> Inl e
                                      | Inr logged \<Rightarrow>
                                          (case get_prop err ''message'' of
                                             Inl e \<Rightarrow> Inl e
                                           | Inr em \<Rightarrow> errorPagerDutyProcess (actionId opts) em)))
                            | Resolve r \<Rightarrow>
                                (case responseLogText rr of
                                   Inl e \<Rightarrow> Inl e
                                 | Inr logged \<Rightarrow>
                                     (case get_prop rr ''data'' of
                                        Inl e \<Rightarrow> Inl e
                                      | Inr d \<Rightarrow> Inr (successResult d))))))))"
  using assms
  by (simp add: executor_def jobTrigger_def incidentQuery_def notePost_def present_def Let_def
      split: sum.splits settled.splits prod.splits)




subsection \<open>What a returned result looks like\<close>

text \<open>
  Whatever the collaborators do, a result that the executor returns has exactly one of
  the two shapes, and an error result names the action in its message.
\<close>

lemma attributed_success: "attributed i (successResult d)"
  by (simp add: attributed_def successResult_def)

lemma attributed_errorResult: "errorResult i m = Inr r \<Longrightarrow> attributed i r"
  using sublist_appendI [of i "''Invalid Response: an error occurred in rundeck action '' @ dq"]
  by (auto simp add: attributed_def errorResult_def split: sum.splits)

lemma attributed_errorSlackProcess: "errorSlackProcess i m = Inr r \<Longrightarrow> attributed i r"
  using sublist_appendI [of i "''Invalid Response: an error occurred in rundeck action '' @ dq"]
  by (auto simp add: attributed_def errorSlackProcess_def split: sum.splits)

lemma attributed_errorPagerDutyProcess: "errorPagerDutyProcess i m = Inr r \<Longrightarrow> attributed i r"
  using sublist_appendI [of i "''An error occurred while calling Pager Duty API in rundeck action '' @ dq"]
  by (auto simp add: attributed_def errorPagerDutyProcess_def split: sum.splits)

lemmas attributed_intros = attributed_success attributed_errorResult attributed_errorSlackProcess
  attributed_errorPagerDutyProcess

lemma executor_returned_attributed:
  assumes "snd (executor rem opts) = Inr r"
  shows "attributed (actionId opts) r"
  using assms
  by (auto simp add: executor_def Let_def attributed_intros
      split: prod.splits settled.splits sum.splits if_splits)

subsection \<open>The chat path\<close>

text \<open>
  Claim C8. When the dedup key is absent, a webhook URL is configured and the webhook
  call, made with the message of the alert, succeeds, the executor returns the ok shape
  with the body of the job trigger's response as data; what the webhook answered is
  discarded.
\<close>

theorem chat_success_returns_job_body:
  assumes job: "snd (jobTrigger rem opts) = Resolve rr"
      and body: "get_prop rr ''data'' = Inr body"
      and link: "get_prop body ''permalink'' = Inr link"
      and nokey: "\<not> present (dedupKey (params opts))"
      and hook: "present (slackWebhookUrl (secrets opts))"
      and posted: "chatPost rem opts link = ([c], Resolve r)"
  shows "executor rem opts =
           ([fst (jobTrigger rem opts), c],
            Inr \<lparr>status = ''ok'', data = Some body, message = None\<rparr>)"
proof -
  from settled_pair [OF job] obtain c1
    where c1: "jobTrigger rem opts = (c1, Resolve rr)" "fst (jobTrigger rem opts) = c1" by blast
  from executor_chat [OF c1(1) path_get2 [OF body link] nokey hook posted] body c1(2)
  show ?thesis by (simp add: successResult_def)
qed

theorem chat_success_returns_job_body_witness:
  "snd (jobTrigger (scripted jobOk (incidentsOk []) created sent) chatOptions) = Resolve jobResponse
   \<and> get_prop jobResponse ''data'' = Inr jobBody
   \<and> get_prop jobBody ''permalink'' = Inr jobLink
   \<and> \<not> present (dedupKey (params chatOptions))
   \<and> present (slackWebhookUrl (secrets chatOptions))
   \<and> chatPost (scripted jobOk (incidentsOk []) created sent) chatOptions jobLink
       = ([exampleChatCall], sent)
   \<and> executor (scripted jobOk (incidentsOk []) created sent) chatOptions
       = ([exampleJobCall, exampleChatCall],
          Inr \<lparr>status = ''ok'', data = Some jobBody, message = None\<rparr>)"
proof -
  let ?R = "scripted jobOk (incidentsOk []) created sent"
  have h1: "snd (jobTrigger ?R chatOptions) = Resolve jobResponse"
    by code_simp
  have h2: "get_prop jobResponse ''data'' = Inr jobBody"
    by (simp add: jobResponse_def)
  have h3: "get_prop jobBody ''permalink'' = Inr jobLink"
    by (simp add: jobBody_def)
  have h4: "\<not> present (dedupKey (params chatOptions))"
    by (simp add: present_def nullable_def chatOptions_def exampleOptions_def)
  have h5: "present (slackWebhookUrl (secrets chatOptions))"
    by (simp add: present_def nullable_def chatOptions_def exampleOptions_def)
  have h6: "chatPost ?R chatOptions jobLink
              = ([exampleChatCall], Resolve (JObj [(''text'', JStr ''ok'')]))"
    by code_simp
  have c1: "fst (jobTrigger ?R chatOptions) = exampleJobCall"
    by code_simp
  from chat_success_returns_job_body [OF h1 h2 h3 h4 h5 h6] h1 h2 h3 h4 h5 h6 c1
  show ?thesis by (simp add: sent_def)
qed

text \<open>
  Claim C10. When the webhook call fails, the error message embeds the \<^verbatim>\<open>error\<close>
  property of the thrown value, not its \<^verbatim>\<open>message\<close>: for a thrown value without an
  \<^verbatim>\<open>error\<close> property the message ends with
  \<^verbatim>\<open>an error occurred while calling slack webhook: undefined\<close>, and for one with the
  property the message ends with the text the property converts to.
\<close>

theorem chat_failure_embeds_error_field:
  assumes job: "snd (jobTrigger rem opts) = Resolve rr"
      and body: "get_prop rr ''data'' = Inr body"
      and link: "get_prop body ''permalink'' = Inr link"
      and nokey: "\<not> present (dedupKey (params opts))"
      and hook: "present (slackWebhookUrl (secrets opts))"
      and failed: "chatPost rem opts link = ([c], Reject err)"
      and field: "get_prop err ''error'' = Inr ev"
  shows "(ev = JUndefined \<longrightarrow>
           (\<exists>msg. snd (executor rem opts) =
                    Inr \<lparr>status = ''error'', data = None, message = Some msg\<rparr>
              \<and> msg = ''Invalid Response: an error occurred in rundeck action '' @ dq
                        @ actionId opts @ dq
                        @ '': an error occurred while calling slack webhook: undefined''
              \<and> suffix ''an error occurred while calling slack webhook: undefined'' msg))
         \<and> (\<forall>errorText. to_string ev = Inr errorText \<longrightarrow>
               snd (executor rem opts) =
                 Inr \<lparr>status = ''error'', data = None, message = Some
                   (''Invalid Response: an error occurred in rundeck action '' @ dq
                      @ actionId opts @ dq
                      @ '': an error occurred while calling slack webhook: '' @ errorText)\<rparr>)"
proof -
  from settled_pair [OF job] obtain c1
    where c1: "jobTrigger rem opts = (c1, Resolve rr)" by blast
  from executor_chat [OF c1 path_get2 [OF body link] nokey hook failed] field
  have e: "snd (executor rem opts) =
          (case to_string ev of
             Inl e \<Rightarrow> Inl e
           | Inr errorText \<Rightarrow> errorSlackProcess (actionId opts) (JStr
               (''an error occurred while calling slack webhook: '' @ errorText)))"
    by simp
  have s: "suffix ''an error occurred while calling slack webhook: undefined''
        (''Invalid Response: an error occurred in rundeck action '' @ dq @ actionId opts
           @ dq @ '': an error occurred while calling slack webhook: undefined'')"
    by (simp add: suffix_def)
  from e s show ?thesis
    by (auto simp add: errorSlackProcess_def)
qed

theorem chat_failure_embeds_error_field_witness:
  "snd (jobTrigger (scripted jobOk (incidentsOk []) created
                      (Reject (JObj [(''message'', JStr ''socket hang up'')]))) chatOptions)
     = Resolve jobResponse
   \<and> get_prop jobResponse ''data'' = Inr jobBody
   \<and> get_prop jobBody ''permalink'' = Inr jobLink
   \<and> \<not> present (dedupKey (params chatOptions))
   \<and> present (slackWebhookUrl (secrets chatOptions))
   \<and> chatPost (scripted jobOk (incidentsOk []) created
                  (Reject (JObj [(''message'', JStr ''socket hang up'')]))) chatOptions jobLink
       = ([exampleChatCall], Reject (JObj [(''message'', JStr ''socket hang up'')]))
   \<and> get_prop (JObj [(''message'', JStr ''socket hang up'')]) ''error'' = Inr JUndefined
   \<and> to_string JUndefined = Inr ''undefined''
   \<and> snd (executor (scripted jobOk (incidentsOk []) created
                      (Reject (JObj [(''message'', JStr ''socket hang up'')]))) chatOptions)
       = Inr \<lparr>status = ''error'', data = None, message = Some
            (''Invalid Response: an error occurred in rundeck action '' @ dq @ ''action-7'' @ dq
             @ '': an error occurred while calling slack webhook: undefined'')\<rparr>"
proof -
  let ?E = "JObj [(''message'', JStr ''socket hang up'')]"
  let ?R = "scripted jobOk (incidentsOk []) created (Reject ?E)"
  have h1: "snd (jobTrigger ?R chatOptions) = Resolve jobResponse"
    by code_simp
  have h2: "get_prop jobResponse ''data'' = Inr jobBody"
    by (simp add: jobResponse_def)
  have h3: "get_prop jobBody ''permalink'' = Inr jobLink"
    by (simp add: jobBody_def)
  have h4: "\<not> present (dedupKey (params chatOptions))"
    by (simp add: present_def nullable_def chatOptions_def exampleOptions_def)
  have h5: "present (slackWebhookUrl (secrets chatOptions))"
    by (simp add: present_def nullable_def chatOptions_def exampleOptions_def)
  have h6: "chatPost ?R chatOptions jobLink = ([exampleChatCall], Reject ?E)"
    by code_simp
  have h7: "get_prop ?E ''error'' = Inr JUndefined"
    by simp
  have h8: "to_string JUndefined = Inr ''undefined''"
    by simp
  have a: "actionId chatOptions = ''action-7''"
    by (simp add: chatOptions_def exampleOptions_def)
  from chat_failure_embeds_error_field [OF h1 h2 h3 h4 h5 h6 h7] h8 a
  have "snd (executor ?R chatOptions)
       = Inr \<lparr>status = ''error'', data = None, message = Some
            (''Invalid Response: an error occurred in rundeck action '' @ dq @ ''action-7'' @ dq
             @ '': an error occurred while calling slack webhook: undefined'')\<rparr>"
    by simp
  with h1 h2 h3 h4 h5 h6 h7 h8 show ?thesis by simp
qed

text \<open>
  Claim C5. When the dedup key is absent and no webhook URL is configured, the executor
  (after a job trigger that succeeded) returns an error result and makes no call beyond
  the job trigger. The claim gives the message as
  \<^verbatim>\<open>Neither of dedupKey nor slackWebhookUrl are provided, failed to send message.\<close>;
  the code's message is longer: it has the prefix of \<^verbatim>\<open>errorSlackProcess\<close> with the
  action id, and its text ends
  \<^verbatim>\<open>failed to send message to PagerDuty incident or slack channel.\<close>
  It does mention both \<^verbatim>\<open>dedupKey\<close> and \<^verbatim>\<open>slackWebhookUrl\<close>.
\<close>

theorem unconfigured_is_error_after_job_only:
  assumes job: "snd (jobTrigger rem opts) = Resolve rr"
      and body: "get_prop rr ''data'' = Inr body"
      and link: "get_prop body ''permalink'' = Inr link"
      and nokey: "\<not> present (dedupKey (params opts))"
      and nohook: "\<not> present (slackWebhookUrl (secrets opts))"
  shows "\<exists>msg. executor rem opts =
           ([fst (jobTrigger rem opts)],
            Inr \<lparr>status = ''error'', data = None, message = Some msg\<rparr>)
         \<and> msg = ''Invalid Response: an error occurred in rundeck action '' @ dq @ actionId opts @ dq
              @ '': Neither of dedupKey nor slackWebhookUrl are provided, ''
              @ ''failed to send message to PagerDuty incident or slack channel.''
         \<and> sublist ''dedupKey'' msg \<and> sublist ''slackWebhookUrl'' msg"
proof -
  from settled_pair [OF job] obtain c1
    where c1: "jobTrigger rem opts = (c1, Resolve rr)" "fst (jobTrigger rem opts) = c1" by blast
  let ?pre = "''Invalid Response: an error occurred in rundeck action '' @ dq @ actionId opts @ dq"
  have a: "sublist ''dedupKey'' (?pre @ '': Neither of dedupKey nor slackWebhookUrl are provided, ''
              @ ''failed to send message to PagerDuty incident or slack channel.'')"
    using sublist_appendI [of "''dedupKey''" "?pre @ '': Neither of ''"
        "'' nor slackWebhookUrl are provided, failed to send message to PagerDuty incident or slack channel.''"]
    by simp
  have b: "sublist ''slackWebhookUrl'' (?pre @ '': Neither of dedupKey nor slackWebhookUrl are provided, ''
              @ ''failed to send message to PagerDuty incident or slack channel.'')"
    using sublist_appendI [of "''slackWebhookUrl''" "?pre @ '': Neither of dedupKey nor ''"
        "'' are provided, failed to send message to PagerDuty incident or slack channel.''"]
    by simp
  from executor_unconfigured [OF c1(1) path_get2 [OF body link] nokey nohook] c1(2) a b
  show ?thesis by (simp add: errorSlackProcess_def)
qed

theorem unconfigured_is_error_after_job_only_witness:
  "snd (jobTrigger (scripted jobOk (incidentsOk []) created sent) bareOptions) = Resolve jobResponse
   \<and> get_prop jobResponse ''data'' = Inr jobBody
   \<and> get_prop jobBody ''permalink'' = Inr jobLink
   \<and> \<not> present (dedupKey (params bareOptions))
   \<and> \<not> present (slackWebhookUrl (secrets bareOptions))
   \<and> executor (scripted jobOk (incidentsOk []) created sent) bareOptions
       = ([exampleJobCall],
          Inr \<lparr>status = ''error'', data = None, message = Some
            (''Invalid Response: an error occurred in rundeck action '' @ dq @ ''action-7'' @ dq
              @ '': Neither of dedupKey nor slackWebhookUrl are provided, ''
              @ ''failed to send message to PagerDuty incident or slack channel.'')\<rparr>)"
proof -
  let ?R = "scripted jobOk (incidentsOk []) created sent"
  have h1: "snd (jobTrigger ?R bareOptions) = Resolve jobResponse"
    by code_simp
  have h2: "get_prop jobResponse ''data'' = Inr jobBody"
    by (simp add: jobResponse_def)
  have h3: "get_prop jobBody ''permalink'' = Inr jobLink"
    by (simp add: jobBody_def)
  have h4: "\<not> present (dedupKey (params bareOptions))"
    by (simp add: present_def nullable_def bareOptions_def exampleOptions_def)
  have h5: "\<not> present (slackWebhookUrl (secrets bareOptions))"
    by (simp add: present_def nullable_def bareOptions_def exampleOptions_def)
  have c1: "fst (jobTrigger ?R bareOptions) = exampleJobCall"
    by code_simp
  have a: "actionId bareOptions = ''action-7''"
    by (simp add: bareOptions_def exampleOptions_def)
  from unconfigured_is_error_after_job_only [OF h1 h2 h3 h4 h5] a h1 h2 h3 h4 h5 c1
  show ?thesis by auto
qed

theorem unconfigured_message_counterexample:
  "\<not> present (dedupKey (params bareOptions))
   \<and> \<not> present (slackWebhookUrl (secrets bareOptions))
   \<and> executor (scripted jobOk (incidentsOk []) created sent) bareOptions
       = ([exampleJobCall],
          Inr \<lparr>status = ''error'', data = None, message = Some
            (''Invalid Response: an error occurred in rundeck action '' @ dq @ ''action-7'' @ dq
              @ '': Neither of dedupKey nor slackWebhookUrl are provided, ''
              @ ''failed to send message to PagerDuty incident or slack channel.'')\<rparr>)
   \<and> ''Invalid Response: an error occurred in rundeck action '' @ dq @ ''action-7'' @ dq
         @ '': Neither of dedupKey nor slackWebhookUrl are provided, ''
         @ ''failed to send message to PagerDuty incident or slack channel.''
       \<noteq> ''Neither of dedupKey nor slackWebhookUrl are provided, failed to send message.''
   \<and> \<not> sublist ''Neither of dedupKey nor slackWebhookUrl are provided, failed to send message.''
         (''Invalid Response: an error occurred in rundeck action '' @ dq @ ''action-7'' @ dq
            @ '': Neither of dedupKey nor slackWebhookUrl are provided, ''
            @ ''failed to send message to PagerDuty incident or slack channel.'')"
  by code_simp

subsection \<open>The job trigger\<close>

text \<open>
  Claim C4. When the job trigger fails, neither the incident system nor the webhook is
  called, and, where the handler's message expression
  \<^verbatim>\<open>err.response ? err.response.data.message : err.message\<close> has a value that
  converts to a string, the executor returns an error result with that text. The
  claim's words \<^verbatim>\<open>calling a job\<close> are not in the message; the code writes
  \<^verbatim>\<open>calling a rundeck job\<close>.
\<close>

theorem job_failure_is_error_without_further_calls:
  assumes job: "snd (jobTrigger rem opts) = Reject err"
  shows "fst (executor rem opts) = [fst (jobTrigger rem opts)]
         \<and> (\<forall>m messageText.
               rundeckFailureMessage err = Inr m \<and> to_string m = Inr messageText \<longrightarrow>
               (\<exists>msg. snd (executor rem opts) =
                        Inr \<lparr>status = ''error'', data = None, message = Some msg\<rparr>
                  \<and> msg = ''Invalid Response: an error occurred in rundeck action '' @ dq
                            @ actionId opts @ dq @ '' calling a rundeck job: '' @ messageText
                  \<and> sublist ''calling a rundeck job'' msg))"
proof -
  from settled_pair [OF job] obtain c1
    where c1: "jobTrigger rem opts = (c1, Reject err)" "fst (jobTrigger rem opts) = c1" by blast
  have s: "sublist ''calling a rundeck job''
             (''Invalid Response: an error occurred in rundeck action '' @ dq
                @ actionId opts @ dq @ '' calling a rundeck job: '' @ t)" for t
    using sublist_appendI [of "''calling a rundeck job''"
        "''Invalid Response: an error occurred in rundeck action '' @ dq @ actionId opts @ dq @ '' ''"
        "'': '' @ t"]
    by simp
  from executor_job_rejected [OF c1(1)] c1(2) s show ?thesis
    by (simp add: errorResult_def)
qed

theorem job_failure_is_error_without_further_calls_witness:
  "snd (jobTrigger (scripted (Reject (axiosError 404 (JObj [(''error'', JBool True),
                       (''message'', JStr ''Job ID does not exist'')])))
                     (incidentsOk []) created sent) incidentOptions)
     = Reject (axiosError 404 (JObj [(''error'', JBool True),
                                     (''message'', JStr ''Job ID does not exist'')]))
   \<and> rundeckFailureMessage (axiosError 404 (JObj [(''error'', JBool True),
                                     (''message'', JStr ''Job ID does not exist'')]))
       = Inr (JStr ''Job ID does not exist'')
   \<and> to_string (JStr ''Job ID does not exist'') = Inr ''Job ID does not exist''
   \<and> executor (scripted (Reject (axiosError 404 (JObj [(''error'', JBool True),
                       (''message'', JStr ''Job ID does not exist'')])))
                     (incidentsOk []) created sent) incidentOptions
       = ([exampleJobCall],
          Inr \<lparr>status = ''error'', data = None, message = Some
            (''Invalid Response: an error occurred in rundeck action '' @ dq @ ''action-7'' @ dq
             @ '' calling a rundeck job: Job ID does not exist'')\<rparr>)"
proof -
  let ?E = "axiosError 404 (JObj [(''error'', JBool True), (''message'', JStr ''Job ID does not exist'')])"
  let ?R = "scripted (Reject ?E) (incidentsOk []) created sent"
  have h1: "snd (jobTrigger ?R incidentOptions) = Reject ?E"
    by code_simp
  have h2: "rundeckFailureMessage ?E = Inr (JStr ''Job ID does not exist'')"
    by code_simp
  have h3: "to_string (JStr ''Job ID does not exist'') = Inr ''Job ID does not exist''"
    by simp
  have c1: "fst (jobTrigger ?R incidentOptions) = exampleJobCall"
    by code_simp
  have a: "actionId incidentOptions = ''action-7''"
    by (simp add: incidentOptions_def exampleOptions_def)
  from job_failure_is_error_without_further_calls [OF h1] h2 h3 a c1
  have "executor ?R incidentOptions
       = ([exampleJobCall],
          Inr \<lparr>status = ''error'', data = None, message = Some
            (''Invalid Response: an error occurred in rundeck action '' @ dq @ ''action-7'' @ dq
             @ '' calling a rundeck job: Job ID does not exist'')\<rparr>)"
    by (cases "executor ?R incidentOptions") auto
  with h1 h2 h3 show ?thesis by simp
qed

theorem job_failure_message_counterexample:
  "snd (jobTrigger (scripted (Reject networkError) (incidentsOk []) created sent) chatOptions)
     = Reject networkError
   \<and> executor (scripted (Reject networkError) (incidentsOk []) created sent) chatOptions
       = ([exampleJobCall],
          Inr \<lparr>status = ''error'', data = None, message = Some
            (''Invalid Response: an error occurred in rundeck action '' @ dq @ ''action-7'' @ dq
             @ '' calling a rundeck job: Network Error'')\<rparr>)
   \<and> \<not> sublist ''calling a job''
         (''Invalid Response: an error occurred in rundeck action '' @ dq @ ''action-7'' @ dq
            @ '' calling a rundeck job: Network Error'')"
  by code_simp

subsection \<open>The incident path\<close>

text \<open>
  Claim C6. When the dedup key is present and the incident query succeeds with an empty
  array, the executor returns an error result whose message says that the incident list
  requested by this key is empty, and the note is never posted: the job trigger and the
  query are the only calls.
\<close>

theorem empty_incident_list_is_error:
  assumes job: "snd (jobTrigger rem opts) = Resolve rr"
      and body: "get_prop rr ''data'' = Inr body"
      and link: "get_prop body ''permalink'' = Inr link"
      and key: "dedupKey (params opts) = Some k" "k \<noteq> []"
      and query: "snd (incidentQuery rem opts) = Resolve lr"
      and listed: "get_prop lr ''data'' = Inr lbody"
      and empty: "get_prop lbody ''incidents'' = Inr (JArr [])"
  shows "\<exists>msg. executor rem opts =
           ([fst (jobTrigger rem opts), fst (incidentQuery rem opts)],
            Inr \<lparr>status = ''error'', data = None, message = Some msg\<rparr>)
         \<and> msg = ''An error occurred while calling Pager Duty API in rundeck action '' @ dq
                   @ actionId opts @ dq
                   @ '': Pager Duty incident list requested by dedupKey(incident_key), ''
                   @ dq @ k @ dq @ '', is empty.''
         \<and> sublist ''is empty'' msg"
proof -
  from settled_pair [OF job] obtain c1
    where c1: "jobTrigger rem opts = (c1, Resolve rr)" "fst (jobTrigger rem opts) = c1" by blast
  from settled_pair [OF query] obtain c2
    where c2: "incidentQuery rem opts = (c2, Resolve lr)" "fst (incidentQuery rem opts) = c2" by blast
  from key have p: "present (dedupKey (params opts))" by (simp add: present_iff)
  have s: "sublist ''is empty''
             (''An error occurred while calling Pager Duty API in rundeck action '' @ dq
                   @ actionId opts @ dq
                   @ '': Pager Duty incident list requested by dedupKey(incident_key), ''
                   @ dq @ k @ dq @ '', is empty.'')"
    using sublist_appendI [of "''is empty''"
        "''An error occurred while calling Pager Duty API in rundeck action '' @ dq
           @ actionId opts @ dq
           @ '': Pager Duty incident list requested by dedupKey(incident_key), ''
           @ dq @ k @ dq @ '', ''" "''.''"]
    by simp
  from executor_query_resolved [OF c1(1) path_get2 [OF body link] p c2(1)]
    listed empty key c1(2) c2(2) s
  show ?thesis by (simp add: errorPagerDutyProcess_def nullable_text_def show_nat_zero show_nat_not_NaN)
qed

theorem empty_incident_list_is_error_witness:
  "snd (jobTrigger (scripted jobOk (incidentsOk []) created sent) incidentOptions)
     = Resolve jobResponse
   \<and> get_prop jobResponse ''data'' = Inr jobBody
   \<and> get_prop jobBody ''permalink'' = Inr jobLink
   \<and> dedupKey (params incidentOptions) = Some ''key-1'' \<and> ''key-1'' \<noteq> []
   \<and> snd (incidentQuery (scripted jobOk (incidentsOk []) created sent) incidentOptions)
       = Resolve (incidentsResponse [])
   \<and> get_prop (incidentsResponse []) ''data'' = Inr (incidentsBody [])
   \<and> get_prop (incidentsBody []) ''incidents'' = Inr (JArr [])
   \<and> executor (scripted jobOk (incidentsOk []) created sent) incidentOptions
       = ([exampleJobCall, exampleQueryCall ''pd-key''],
          Inr \<lparr>status = ''error'', data = None, message = Some
            (''An error occurred while calling Pager Duty API in rundeck action '' @ dq
               @ ''action-7'' @ dq
               @ '': Pager Duty incident list requested by dedupKey(incident_key), ''
               @ dq @ ''key-1'' @ dq @ '', is empty.'')\<rparr>)"
proof -
  let ?R = "scripted jobOk (incidentsOk []) created sent"
  have h1: "snd (jobTrigger ?R incidentOptions) = Resolve jobResponse"
    by code_simp
  have h2: "get_prop jobResponse ''data'' = Inr jobBody"
    by (simp add: jobResponse_def)
  have h3: "get_prop jobBody ''permalink'' = Inr jobLink"
    by (simp add: jobBody_def)
  have h4: "dedupKey (params incidentOptions) = Some ''key-1''"
    by (simp add: incidentOptions_def exampleOptions_def)
  have h5: "''key-1'' \<noteq> []"
    by simp
  have h6: "snd (incidentQuery ?R incidentOptions) = Resolve (incidentsResponse [])"
    by code_simp
  have h7: "get_prop (incidentsResponse []) ''data'' = Inr (incidentsBody [])"
    by (simp add: incidentsResponse_def)
  have h8: "get_prop (incidentsBody []) ''incidents'' = Inr (JArr [])"
    by (simp add: incidentsBody_def)
  have c1: "fst (jobTrigger ?R incidentOptions) = exampleJobCall"
    by code_simp
  have c2: "fst (incidentQuery ?R incidentOptions) = exampleQueryCall ''pd-key''"
    by code_simp
  have a: "actionId incidentOptions = ''action-7''"
    by (simp add: incidentOptions_def exampleOptions_def)
  from empty_incident_list_is_error [OF h1 h2 h3 h4 h5 h6 h7 h8] a c1 c2
    h1 h2 h3 h4 h6 h7 h8
  show ?thesis by auto
qed






subsection \<open>Where the executor throws, and what the note handler reports\<close>

text \<open>
  Claim C1. For every valid input the executor returns one of the two result shapes, an
  error message naming the action. A returned result always is so (lemma
  \<open>executor_returned_attributed\<close>), but the executor does not always return: here the
  note post is refused with a body that is not Pager Duty's error object (a plain text
  body from a gateway), the handler reads \<^verbatim>\<open>err.response.data.error.message\<close>, and
  the executor throws \<^verbatim>\<open>TypeError\<close> in place of a result.
\<close>

theorem note_failure_without_error_object_throws:
  "executor (scripted jobOk (incidentsOk [JObj [(''id'', JStr ''P1'')]])
               (Reject (axiosError 503 (JStr ''Service Unavailable''))) sent) incidentOptions
     = ([exampleJobCall, exampleQueryCall ''pd-key'', exampleNoteCall ''P1'' ''pd-key''],
        Inl TypeError)"
  by code_simp

text \<open>
  Claim C2. The executor never throws to its caller, whatever the collaborators answer.
  It does throw: when the incident query is refused with a body without an
  \<^verbatim>\<open>error\<close> object, from inside the \<^verbatim>\<open>catch\<close> block (line 164), and when the job
  trigger resolves with a response without \<^verbatim>\<open>data\<close>, from line 111, outside any
  \<^verbatim>\<open>try\<close>. A failed job trigger whose body has no \<^verbatim>\<open>message\<close>, in contrast, is
  turned into an error result.
\<close>

theorem executor_throws_to_caller:
  "executor (scripted jobOk (Reject (axiosError 502 (JStr ''Bad Gateway''))) created sent)
      incidentOptions
     = ([exampleJobCall, exampleQueryCall ''pd-key''], Inl TypeError)
   \<and> executor (scripted (Resolve (JObj [(''status'', JNum 200), (''statusText'', JStr ''OK'')]))
                 (incidentsOk []) created sent) chatOptions
     = ([exampleJobCall], Inl TypeError)
   \<and> executor (scripted (Reject (axiosError 500 (JObj []))) (incidentsOk []) created sent)
        chatOptions
     = ([exampleJobCall],
        Inr \<lparr>status = ''error'', data = None, message = Some
          (''Invalid Response: an error occurred in rundeck action '' @ dq @ ''action-7'' @ dq
           @ '' calling a rundeck job: undefined'')\<rparr>)"
  by code_simp

text \<open>
  Claim C3. When the note post fails, the error message follows the pattern of the
  incident query's failure and prefers the structured \<^verbatim>\<open>{status} {error.message}\<close>
  detail. The handler (line 194) computes that detail, here \<^verbatim>\<open>404 Not Found\<close>, and
  then passes \<^verbatim>\<open>err.message\<close> to \<^verbatim>\<open>errorPagerDutyProcess\<close> (line 196): the message
  carries the transport text. The same error on the incident query is reported with the
  structured detail.
\<close>

theorem note_failure_reports_transport_text:
  "pagerDutyFailureMessage
      (axiosError 404 (JObj [(''error'', JObj [(''message'', JStr ''Not Found''),
                                              (''code'', JNum 2100)])]))
     = Inr (JStr ''404 Not Found'')
   \<and> executor (scripted jobOk (incidentsOk [JObj [(''id'', JStr ''P1'')]])
                 (Reject (axiosError 404 (JObj [(''error'', JObj [(''message'', JStr ''Not Found''),
                                                                 (''code'', JNum 2100)])]))) sent)
        incidentOptions
     = ([exampleJobCall, exampleQueryCall ''pd-key'', exampleNoteCall ''P1'' ''pd-key''],
        Inr \<lparr>status = ''error'', data = None, message = Some
          (''An error occurred while calling Pager Duty API in rundeck action '' @ dq
           @ ''action-7'' @ dq @ '': Request failed with status code 404'')\<rparr>)
   \<and> executor (scripted jobOk
                 (Reject (axiosError 404 (JObj [(''error'', JObj [(''message'', JStr ''Not Found''),
                                                                 (''code'', JNum 2100)])])))
                 created sent)
        incidentOptions
     = ([exampleJobCall, exampleQueryCall ''pd-key''],
        Inr \<lparr>status = ''error'', data = None, message = Some
          (''An error occurred while calling Pager Duty API in rundeck action '' @ dq
           @ ''action-7'' @ dq @ '': 404 Not Found'')\<rparr>)"
  by code_simp

end
